theory Spec2Isabelle
  imports Main "HOL-Library.Signed_Division"
begin

section \<open>RaychelLogger: the process-wide logger as explicit state\<close>

text \<open>
  The logger keeps its state in file-level statics of \<^verbatim>\<open>Logger.cpp\<close>. The model
  gathers them in one record and every function takes the record and returns the new
  one. Two revisions of the library are in the repository: the one whose helper
  namespace is \<^verbatim>\<open>_\<close> (timers in milliseconds, \<^verbatim>\<open>logDuration\<close> at the Info level)
  and the one whose helper namespace is \<^verbatim>\<open>details\<close> (timers in nanoseconds behind
  templates that truncate to a unit, \<^verbatim>\<open>logDuration\<close> at a level the caller passes).
  The printing functions, the lock, \<^verbatim>\<open>logConcurrent\<close>, \<^verbatim>\<open>startTimer\<close> and the file
  sink are the same in both; where the revisions differ both are modelled, the later
  one under a name that carries \<^verbatim>\<open>details\<close> or the suffix \<^verbatim>\<open>_T\<close>.
\<close>

subsection \<open>Data\<close>

text \<open>
  \<^verbatim>\<open>enum class LogLevel : size_t { debug, info, warn, error, critical, fatal, log }\<close>.
  The constructors are capitalised, the entry points \<^verbatim>\<open>debug\<close> ... \<^verbatim>\<open>log\<close> keep the
  lower-case names. \<open>level_index\<close> is the \<^verbatim>\<open>size_t\<close> behind each enumerator: the
  comparison \<^verbatim>\<open>level < requiredLevel()\<close> and the array subscripts go through it.
\<close>

datatype LogLevel = Debug | Info | Warn | Error | Critical | Fatal | Log

fun level_index :: "LogLevel \<Rightarrow> nat" where
  "level_index Debug = 0"
| "level_index Info = 1"
| "level_index Warn = 2"
| "level_index Error = 3"
| "level_index Critical = 4"
| "level_index Fatal = 5"
| "level_index Log = 6"

text \<open>
  The stream buffer \<^verbatim>\<open>outStream.rdbuf()\<close> points at: the one of \<^verbatim>\<open>std::cout\<close>, the one
  of the static \<^verbatim>\<open>logFile\<close>, or the buffer of a stream handed to \<^verbatim>\<open>setOutStream\<close>.
\<close>

datatype streambuf = cout_buf | logFile_buf | user_buf nat

text \<open>
  The statics of \<^verbatim>\<open>Logger.cpp\<close>. \<open>buffers\<close> holds the bytes each stream buffer has
  received. \<open>mtx\<close> is how many times the calling thread holds the
  \<^verbatim>\<open>std::recursive_mutex\<close>; \<open>logFile_open\<close> is \<^verbatim>\<open>logFile.is_open()\<close>. A time point is
  the clock's reading in nanoseconds.
\<close>

record logger =
  currentLevel :: LogLevel
  minLogLevel :: LogLevel
  doColor :: bool
  outStream :: streambuf
  buffers :: "streambuf \<Rightarrow> string"
  logFile_open :: bool
  mtx :: nat
  mtx_engaged :: bool
  timePoints :: "string \<rightharpoonup> int"
  levelLabels :: "LogLevel \<Rightarrow> string"
  cols :: "LogLevel \<Rightarrow> string"

definition reset_col :: string where
  "reset_col = CHR 0x1B # ''[0m''"

fun default_label :: "LogLevel \<Rightarrow> string" where
  "default_label Debug = ''DEBUG''"
| "default_label Info = ''INFO''"
| "default_label Warn = ''WARNING''"
| "default_label Error = ''ERROR''"
| "default_label Critical = ''CRITICAL''"
| "default_label Fatal = ''FATAL''"
| "default_label Log = ''OUT''"

fun default_col :: "LogLevel \<Rightarrow> string" where
  "default_col Debug = CHR 0x1B # ''[36m''"
| "default_col Info = CHR 0x1B # ''[32m''"
| "default_col Warn = CHR 0x1B # ''[33m''"
| "default_col Error = CHR 0x1B # ''[31m''"
| "default_col Critical = CHR 0x1B # ''[1;31m''"
| "default_col Fatal = CHR 0x1B # ''[4;1;31m''"
| "default_col Log = CHR 0x1B # ''[34m''"

text \<open>The state the initialisers of the statics give at process start.\<close>

definition initial :: logger where
  "initial = \<lparr> currentLevel = Info, minLogLevel = Info, doColor = True,
               outStream = cout_buf, buffers = (\<lambda>b. []), logFile_open = False,
               mtx = 0, mtx_engaged = False, timePoints = Map.empty,
               levelLabels = default_label, cols = default_col \<rparr>"

text \<open>What the active stream has received so far.\<close>

definition emitted :: "logger \<Rightarrow> string" where
  "emitted st = buffers st (outStream st)"

subsection \<open>Values that are logged\<close>

text \<open>
  The variadic arguments of the entry points, as far as the library itself passes them:
  text (\<^verbatim>\<open>std::string\<close>, \<^verbatim>\<open>std::string_view\<close>, string literals), the integer count of a
  duration, and a single character. \<^verbatim>\<open>getRepStreamable\<close> streams each into an
  \<^verbatim>\<open>std::ostringstream\<close>: text as it is, an integer in decimal, a character as itself.
\<close>

datatype loggable = Text string | Number int | Character char

fun digits10 :: "nat \<Rightarrow> string" where
  "digits10 n = (if n < 10 then [''0123456789'' ! n]
                 else digits10 (n div 10) @ [''0123456789'' ! (n mod 10)])"

declare digits10.simps [simp del]

definition decimal :: "int \<Rightarrow> string" where
  "decimal i = (if i < 0 then CHR ''-'' # digits10 (nat (- i)) else digits10 (nat i))"

fun getRepStreamable :: "loggable \<Rightarrow> string" where
  "getRepStreamable (Text s) = s"
| "getRepStreamable (Number i) = decimal i"
| "getRepStreamable (Character c) = [c]"

subsection \<open>Printing (\<^verbatim>\<open>Logger.cpp\<close>, both revisions)\<close>

definition getLogLabel :: "logger \<Rightarrow> string" where
  "getLogLabel st = levelLabels st (currentLevel st)"

definition getLogColor :: "logger \<Rightarrow> string" where
  "getLogColor st = (if doColor st then cols st (currentLevel st) else [])"

definition requiredLevel :: "logger \<Rightarrow> LogLevel" where
  "requiredLevel st = minLogLevel st"

definition setLogLevel :: "LogLevel \<Rightarrow> logger \<Rightarrow> logger" where
  "setLogLevel level st = st\<lparr>currentLevel := level\<rparr>"

text \<open>\<^verbatim>\<open>outStream.write(data, size)\<close>: the bytes go to the buffer the stream points at.\<close>

definition ostream_write :: "string \<Rightarrow> logger \<Rightarrow> logger" where
  "ostream_write s st =
     st\<lparr>buffers := (buffers st)(outStream st := buffers st (outStream st) @ s)\<rparr>"

definition printWithoutLabel :: "string \<Rightarrow> logger \<Rightarrow> logger" where
  "printWithoutLabel msg st =
     (if doColor st then
        (let col = getLogColor st in
         ostream_write reset_col (ostream_write msg (ostream_write col st)))
      else ostream_write msg st)"

definition print :: "string \<Rightarrow> logger \<Rightarrow> logger" where
  "print msg st =
     printWithoutLabel msg
       (if doColor st then
          (let col = getLogColor st; label = getLogLabel st in
           ostream_write reset_col (ostream_write ''] '' (ostream_write label
             (ostream_write ''['' (ostream_write col st)))))
        else
          (let label = getLogLabel st in
           ostream_write ''] '' (ostream_write label (ostream_write ''['' st))))"

subsection \<open>The stream lock\<close>

text \<open>
  \<^verbatim>\<open>mtx.lock()\<close> on a recursive mutex the thread may already hold raises the depth by
  one; \<^verbatim>\<open>mtx.unlock()\<close> lowers it by one. \<^verbatim>\<open>unlockStream\<close> unlocks only when the flag
  \<^verbatim>\<open>mtx_engaged\<close> is set, and clears the flag.
\<close>

definition lockStream :: "logger \<Rightarrow> logger" where
  "lockStream st = st\<lparr>mtx := mtx st + 1, mtx_engaged := True\<rparr>"

definition unlockStream :: "logger \<Rightarrow> logger" where
  "unlockStream st =
     (if mtx_engaged st then st\<lparr>mtx_engaged := False, mtx := mtx st - 1\<rparr> else st)"

subsection \<open>The log engine (\<^verbatim>\<open>Logger.h\<close>, both revisions)\<close>

definition logObj :: "bool \<Rightarrow> loggable \<Rightarrow> logger \<Rightarrow> logger" where
  "logObj log_with_label obj st =
     (let representation = getRepStreamable obj in
      if log_with_label then print representation st
      else printWithoutLabel representation st)"

text \<open>
  \<^verbatim>\<open>logConcurrent(level, log_with_label, obj, args...)\<close>. The \<^verbatim>\<open>Finally\<close> object runs
  \<^verbatim>\<open>unlockStream\<close> on both ways out, so both branches end in it.
\<close>

definition logConcurrent ::
  "LogLevel \<Rightarrow> bool \<Rightarrow> loggable \<Rightarrow> loggable list \<Rightarrow> logger \<Rightarrow> logger" where
  "logConcurrent level log_with_label obj args st =
     (let st1 = lockStream st in
      if level_index level < level_index (requiredLevel st1) \<and> level \<noteq> Fatal
      then unlockStream st1
      else unlockStream
             (fold (logObj False) args
                (logObj log_with_label obj (setLogLevel level st1))))"

definition log_level :: "LogLevel \<Rightarrow> loggable \<Rightarrow> loggable list \<Rightarrow> logger \<Rightarrow> logger" where
  "log_level level obj args st = logConcurrent level True obj args st"

definition debug :: "loggable \<Rightarrow> loggable list \<Rightarrow> logger \<Rightarrow> logger" where
  "debug obj args st = logConcurrent Debug True obj args st"

definition info :: "loggable \<Rightarrow> loggable list \<Rightarrow> logger \<Rightarrow> logger" where
  "info obj args st = logConcurrent Info True obj args st"

definition warn :: "loggable \<Rightarrow> loggable list \<Rightarrow> logger \<Rightarrow> logger" where
  "warn obj args st = logConcurrent Warn True obj args st"

definition error :: "loggable \<Rightarrow> loggable list \<Rightarrow> logger \<Rightarrow> logger" where
  "error obj args st = logConcurrent Error True obj args st"

definition critical :: "loggable \<Rightarrow> loggable list \<Rightarrow> logger \<Rightarrow> logger" where
  "critical obj args st = logConcurrent Critical True obj args st"

definition fatal :: "loggable \<Rightarrow> loggable list \<Rightarrow> logger \<Rightarrow> logger" where
  "fatal obj args st = logConcurrent Fatal True obj args st"

definition log :: "loggable \<Rightarrow> loggable list \<Rightarrow> logger \<Rightarrow> logger" where
  "log obj args st = logConcurrent Log False obj args st"

text \<open>The entry point that belongs to a level: \<^verbatim>\<open>debug\<close> for Debug, ..., \<^verbatim>\<open>log\<close> for Log.\<close>

fun entry_point :: "LogLevel \<Rightarrow> loggable \<Rightarrow> loggable list \<Rightarrow> logger \<Rightarrow> logger" where
  "entry_point Debug = debug"
| "entry_point Info = info"
| "entry_point Warn = warn"
| "entry_point Error = error"
| "entry_point Critical = critical"
| "entry_point Fatal = fatal"
| "entry_point Log = log"

subsection \<open>Configuration\<close>

definition setLogLabel :: "LogLevel \<Rightarrow> string \<Rightarrow> logger \<Rightarrow> logger" where
  "setLogLabel lv label st =
     (let st1 = lockStream st in
      unlockStream (st1\<lparr>levelLabels := (levelLabels st1)(lv := label)\<rparr>))"

definition setLogColor :: "LogLevel \<Rightarrow> string \<Rightarrow> logger \<Rightarrow> logger" where
  "setLogColor lv color st =
     (let st1 = lockStream st in
      unlockStream (st1\<lparr>cols := (cols st1)(lv := color)\<rparr>))"

definition disableColor :: "logger \<Rightarrow> logger" where
  "disableColor st = st\<lparr>doColor := False\<rparr>"

definition enableColor :: "logger \<Rightarrow> logger" where
  "enableColor st = st\<lparr>doColor := True\<rparr>"

definition setMinimumLogLevel :: "LogLevel \<Rightarrow> logger \<Rightarrow> LogLevel \<times> logger" where
  "setMinimumLogLevel lv st = (let st1 = st\<lparr>minLogLevel := lv\<rparr> in (minLogLevel st1, st1))"

text \<open>
  \<^verbatim>\<open>setOutStream\<close> installs the buffer of the caller's stream. The earlier revision
  does it without the lock, the later one under \<^verbatim>\<open>RAYCHELLOGGER_LOCK_STREAM\<close>.
\<close>

definition setOutStream :: "streambuf \<Rightarrow> logger \<Rightarrow> logger" where
  "setOutStream os st = st\<lparr>outStream := os\<rparr>"

definition details_setOutStream :: "streambuf \<Rightarrow> logger \<Rightarrow> logger" where
  "details_setOutStream os st =
     (let st1 = lockStream st in unlockStream (st1\<lparr>outStream := os\<rparr>))"

subsection \<open>Durations\<close>

text \<open>
  The units \<^verbatim>\<open>suffix_for\<close> is specialised for, the nanoseconds in one tick of each, and
  \<^verbatim>\<open>std::chrono::duration_cast\<close> from nanoseconds: an integer division that truncates
  towards zero, as C++ division does (\<open>sdiv\<close>).
\<close>

datatype chrono_unit = Nanoseconds | Microseconds | Milliseconds | Seconds | Hours

fun period_ns :: "chrono_unit \<Rightarrow> int" where
  "period_ns Nanoseconds = 1"
| "period_ns Microseconds = 1000"
| "period_ns Milliseconds = 1000000"
| "period_ns Seconds = 1000000000"
| "period_ns Hours = 3600000000000"


definition duration_cast :: "chrono_unit \<Rightarrow> int \<Rightarrow> int" where
  "duration_cast T ns = ns sdiv period_ns T"

subsection \<open>Timers\<close>

text \<open>
  Every timer function reads \<^verbatim>\<open>high_resolution_clock::now()\<close> once; the reading is the
  argument \<open>now\<close>. The first component of a result is the returned value (for a
  duration, its \<^verbatim>\<open>count()\<close>), the second the state.
\<close>

definition not_found_tail :: string where
  "not_found_tail = '' not found!'' @ [CHR 0x0A]"

definition startTimer :: "string \<Rightarrow> int \<Rightarrow> logger \<Rightarrow> string \<times> logger" where
  "startTimer label now st =
     (let st1 = lockStream st;
          tp = now;
          str = label;
          st2 = st1\<lparr>timePoints := (timePoints st1)(str \<mapsto> tp)\<rparr>
      in (str, unlockStream st2))"

text \<open>The revision with \<^verbatim>\<open>duration_t = std::chrono::milliseconds\<close>.\<close>

definition endTimer :: "string \<Rightarrow> int \<Rightarrow> logger \<Rightarrow> int \<times> logger" where
  "endTimer label now st =
     (let st1 = lockStream st;
          endPoint = now
      in case timePoints st1 label of
           Some startTime \<Rightarrow>
             (duration_cast Milliseconds (endPoint - startTime),
              unlockStream (st1\<lparr>timePoints := (timePoints st1)(label := None)\<rparr>))
         | None \<Rightarrow>
             (- 1, unlockStream (error (Text ''Label '') [Text label, Text not_found_tail] st1)))"

definition getTimer :: "string \<Rightarrow> int \<Rightarrow> logger \<Rightarrow> int \<times> logger" where
  "getTimer label now st =
     (let endPoint = now
      in case timePoints st label of
           Some startTime \<Rightarrow> (duration_cast Milliseconds (endPoint - startTime), st)
         | None \<Rightarrow> (- 1, error (Text ''Label '') [Text label, Text not_found_tail] st))"



text \<open>
  The revision with \<^verbatim>\<open>details::endTimer\<close> and \<^verbatim>\<open>details::getTimer\<close> in nanoseconds,
  both under the lock, and the templates over the unit \<open>T\<close> in front of them.
\<close>

definition details_endTimer :: "string \<Rightarrow> int \<Rightarrow> logger \<Rightarrow> int \<times> logger" where
  "details_endTimer label now st =
     (let st1 = lockStream st;
          endPoint = now
      in case timePoints st1 label of
           Some startTime \<Rightarrow>
             (duration_cast Nanoseconds (endPoint - startTime),
              unlockStream (st1\<lparr>timePoints := (timePoints st1)(label := None)\<rparr>))
         | None \<Rightarrow>
             (- 1, unlockStream (error (Text ''Label '') [Text label, Text not_found_tail] st1)))"

definition details_getTimer :: "string \<Rightarrow> int \<Rightarrow> logger \<Rightarrow> int \<times> logger" where
  "details_getTimer label now st =
     (let st1 = lockStream st;
          endPoint = now
      in case timePoints st1 label of
           Some startTime \<Rightarrow>
             (duration_cast Nanoseconds (endPoint - startTime), unlockStream st1)
         | None \<Rightarrow>
             (- 1, unlockStream (error (Text ''Label '') [Text label, Text not_found_tail] st1)))"

definition endTimer_T :: "chrono_unit \<Rightarrow> string \<Rightarrow> int \<Rightarrow> logger \<Rightarrow> int \<times> logger" where
  "endTimer_T T label now st =
     (let (dur, st1) = details_endTimer label now st in (duration_cast T dur, st1))"


definition logDuration_level_T ::
  "chrono_unit \<Rightarrow> LogLevel \<Rightarrow> string \<Rightarrow> string \<Rightarrow> string \<Rightarrow> int \<Rightarrow> logger \<Rightarrow> logger" where
  "logDuration_level_T T level label prefix suffix now st =
     (let (dur, st1) = endTimer_T T label now st in
      if dur = - 1 then st1
      else if prefix = [] then
        log_level level (Text label)
          [Text '': '', Number dur, Text suffix, Character (CHR 0x0A)] st1
      else
        log_level level (Text prefix) [Number dur, Text suffix, Character (CHR 0x0A)] st1)"

definition logDuration_T ::
  "chrono_unit \<Rightarrow> string \<Rightarrow> string \<Rightarrow> string \<Rightarrow> int \<Rightarrow> logger \<Rightarrow> logger" where
  "logDuration_T T label prefix suffix now st =
     logDuration_level_T T Log label prefix suffix now st"



subsection \<open>The file sink\<close>

text \<open>
  What the file system answers is an argument: \<open>ec\<close> is the message of the error code
  \<^verbatim>\<open>create_directories\<close> sets (\<open>None\<close> when it sets none; it is not called for an
  empty directory name) and \<open>opened\<close> says whether the new \<^verbatim>\<open>std::ofstream\<close> is open
  after its construction.
\<close>

definition dumpLogFile :: "logger \<Rightarrow> logger" where
  "dumpLogFile st =
     (if logFile_open st then
        (let st1 = (if outStream st = logFile_buf then st\<lparr>outStream := cout_buf\<rparr> else st)
         in st1\<lparr>logFile_open := False\<rparr>)
      else st)"

definition open_path_head :: string where
  "open_path_head = ''failed to open log file '' @ [CHR 0x27]"

definition open_path_tail :: string where
  "open_path_tail = [CHR 0x27] @ '': ''"

definition initLogFile ::
  "string \<Rightarrow> string \<Rightarrow> string option \<Rightarrow> bool \<Rightarrow> logger \<Rightarrow> logger" where
  "initLogFile directory filename ec opened st =
     (case (if directory \<noteq> [] then ec else None) of
        Some message \<Rightarrow>
          error (Text open_path_head)
            [Text directory, Text ''/'', Text filename, Text open_path_tail, Text message] st
      | None \<Rightarrow>
          (let st1 = (if logFile_open st then dumpLogFile st else st);
               st2 = st1\<lparr>logFile_open := opened\<rparr>
           in if logFile_open st2 then disableColor (st2\<lparr>outStream := logFile_buf\<rparr>)
              else st2))"

subsection \<open>What a call writes\<close>

text \<open>
  The bytes of one call, written out as one string: \<open>colorized\<close> is a piece between the
  colour and the reset sequence when colouring is on and the bare piece when it is off;
  \<open>line_bytes\<close> is the decoration \<^verbatim>\<open>[LABEL] \<close> (when asked for) followed by every
  argument's representation, each piece colorized on its own.
\<close>

definition colorized :: "bool \<Rightarrow> string \<Rightarrow> string \<Rightarrow> string" where
  "colorized on col s = (if on then col @ s @ reset_col else s)"

definition line_bytes ::
  "bool \<Rightarrow> string \<Rightarrow> string \<Rightarrow> bool \<Rightarrow> loggable \<Rightarrow> loggable list \<Rightarrow> string" where
  "line_bytes on col label with_label obj args =
     (if with_label then colorized on col (''['' @ label @ ''] '') else []) @
     concat (map (\<lambda>a. colorized on col (getRepStreamable a)) (obj # args))"

section \<open>Properties\<close>

subsection \<open>Writes\<close>

lemma ostream_write_twice: "ostream_write b (ostream_write a st) = ostream_write (a @ b) st"
  by (simp add: ostream_write_def)

lemma printWithoutLabel_bytes:
  "printWithoutLabel msg st = ostream_write (colorized (doColor st) (cols st (currentLevel st)) msg) st"
  by (simp add: printWithoutLabel_def getLogColor_def colorized_def ostream_write_def)

lemma print_bytes:
  "print msg st = ostream_write
     (colorized (doColor st) (cols st (currentLevel st)) (''['' @ levelLabels st (currentLevel st) @ ''] '')
      @ colorized (doColor st) (cols st (currentLevel st)) msg) st"
  by (simp add: print_def printWithoutLabel_def getLogColor_def getLogLabel_def colorized_def ostream_write_def)

lemma ostream_write_fields [simp]:
  "currentLevel (ostream_write s st) = currentLevel st"
  "doColor (ostream_write s st) = doColor st"
  "cols (ostream_write s st) = cols st"
  "levelLabels (ostream_write s st) = levelLabels st"
  by (simp_all add: ostream_write_def)

lemma fold_logObj_bytes:
  "fold (logObj False) args st =
     ostream_write (concat (map (\<lambda>a. colorized (doColor st) (cols st (currentLevel st)) (getRepStreamable a)) args)) st"
proof (induction args arbitrary: st)
  case Nil
  show ?case by (simp add: ostream_write_def)
next
  case (Cons a args)
  have step: "logObj False a st =
      ostream_write (colorized (doColor st) (cols st (currentLevel st)) (getRepStreamable a)) st"
    by (simp add: logObj_def printWithoutLabel_bytes)
  have "fold (logObj False) (a # args) st = fold (logObj False) args (logObj False a st)"
    by simp
  also have "\<dots> = ostream_write
      (concat (map (\<lambda>a. colorized (doColor st) (cols st (currentLevel st)) (getRepStreamable a)) args))
      (logObj False a st)"
    by (simp only: Cons.IH step ostream_write_fields)
  finally show ?case
    by (simp add: step ostream_write_twice)
qed

lemma logObj_first_bytes:
  "logObj wl obj st = ostream_write
     ((if wl then colorized (doColor st) (cols st (currentLevel st)) (''['' @ levelLabels st (currentLevel st) @ ''] '') else [])
       @ colorized (doColor st) (cols st (currentLevel st)) (getRepStreamable obj)) st"
  by (simp add: logObj_def print_bytes printWithoutLabel_bytes)

lemma logConcurrent_blocked:
  "level_index level < level_index (minLogLevel st) \<Longrightarrow> level \<noteq> Fatal \<Longrightarrow>
   logConcurrent level wl obj args st = st\<lparr>mtx_engaged := False\<rparr>"
  by (simp add: logConcurrent_def lockStream_def unlockStream_def requiredLevel_def)

lemma logConcurrent_passed:
  assumes "\<not> (level_index level < level_index (minLogLevel st) \<and> level \<noteq> Fatal)"
  shows "logConcurrent level wl obj args st =
     st\<lparr>currentLevel := level,
        buffers := (buffers st)(outStream st := buffers st (outStream st) @
           line_bytes (doColor st) (cols st level) (levelLabels st level) wl obj args),
        mtx_engaged := False\<rparr>"
proof -
  let ?st1 = "setLogLevel level (lockStream st)"
  have run: "logConcurrent level wl obj args st =
      unlockStream (fold (logObj False) args (logObj wl obj ?st1))"
    using assms by (auto simp add: logConcurrent_def requiredLevel_def lockStream_def Let_def)
  have written: "fold (logObj False) args (logObj wl obj ?st1) =
      ostream_write (line_bytes (doColor st) (cols st level) (levelLabels st level) wl obj args) ?st1"
    by (simp add: fold_logObj_bytes logObj_first_bytes ostream_write_twice line_bytes_def
        setLogLevel_def lockStream_def)
  show ?thesis
    unfolding run written
    by (simp add: lockStream_def unlockStream_def setLogLevel_def ostream_write_def)
qed

lemma emitted_setMinimumLogLevel [simp]:
  "emitted (snd (setMinimumLogLevel M st)) = emitted st"
  by (simp add: setMinimumLogLevel_def emitted_def)

lemma line_bytes_labelled_nonempty: "line_bytes on col label True obj args \<noteq> []"
  by (simp add: line_bytes_def colorized_def)

lemma emitted_logConcurrent_passed:
  assumes "\<not> (level_index level < level_index (minLogLevel st) \<and> level \<noteq> Fatal)"
  shows "emitted (logConcurrent level wl obj args st) =
     emitted st @ line_bytes (doColor st) (cols st level) (levelLabels st level) wl obj args"
  by (simp add: logConcurrent_passed [OF assms] emitted_def)

lemma entry_point_logConcurrent:
  "entry_point L obj args st = logConcurrent L (L \<noteq> Log) obj args st"
  by (cases L) (simp_all add: debug_def info_def warn_def error_def critical_def fatal_def log_def)


subsection \<open>Timers and the lock\<close>

lemma period_ns_pos: "0 < period_ns T"
  by (cases T) simp_all

lemma duration_cast_nonneg: "0 \<le> ns \<Longrightarrow> 0 \<le> duration_cast T ns"
  using period_ns_pos [of T]
  by (simp add: duration_cast_def signed_divide_int_def sgn_if pos_imp_zdiv_nonneg_iff)

lemma duration_cast_ns [simp]: "duration_cast Nanoseconds ns = ns"
  by (simp add: duration_cast_def)

lemma duration_cast_sentinel_lost:
  "duration_cast Milliseconds (- 1) = 0"
  by (simp add: duration_cast_def signed_divide_int_def)

lemma emitted_lockStream [simp]: "emitted (lockStream st) = emitted st"
  by (simp add: emitted_def lockStream_def)

lemma lockStream_fields [simp]:
  "minLogLevel (lockStream st) = minLogLevel st"
  "doColor (lockStream st) = doColor st"
  "cols (lockStream st) = cols st"
  "levelLabels (lockStream st) = levelLabels st"
  "outStream (lockStream st) = outStream st"
  "logFile_open (lockStream st) = logFile_open st"
  "timePoints (lockStream st) = timePoints st"
  by (simp_all add: lockStream_def)


lemma error_under_lock:
  "error obj args (lockStream st) =
     (if level_index Error < level_index (minLogLevel st)
      then st\<lparr>mtx := mtx st + 1, mtx_engaged := False\<rparr>
      else st\<lparr>currentLevel := Error,
              buffers := (buffers st)(outStream st := buffers st (outStream st) @
                 line_bytes (doColor st) (cols st Error) (levelLabels st Error) True obj args),
              mtx := mtx st + 1, mtx_engaged := False\<rparr>)"
proof (cases "level_index Error < level_index (minLogLevel st)")
  case True
  then have "level_index Error < level_index (minLogLevel (lockStream st))"
    by (simp add: lockStream_def)
  then show ?thesis
    using True by (simp add: error_def logConcurrent_blocked) (simp add: lockStream_def)
next
  case False
  then have "\<not> (level_index Error < level_index (minLogLevel (lockStream st)) \<and> Error \<noteq> Fatal)"
    by (simp add: lockStream_def)
  then show ?thesis
    using False by (simp add: error_def logConcurrent_passed) (simp add: lockStream_def)
qed

lemma unlockStream_idle: "\<not> mtx_engaged st \<Longrightarrow> unlockStream st = st"
  by (simp add: unlockStream_def)

lemma miss_under_lock:
  "unlockStream (error obj args (lockStream st)) = error obj args (lockStream st)"
  by (rule unlockStream_idle) (simp add: error_under_lock)

lemma endTimer_miss:
  "timePoints st s = None \<Longrightarrow>
   endTimer s now st = (- 1, error (Text ''Label '') [Text s, Text not_found_tail] (lockStream st))"
  by (simp add: endTimer_def Let_def miss_under_lock)

lemma details_endTimer_miss:
  "timePoints st s = None \<Longrightarrow>
   details_endTimer s now st = (- 1, error (Text ''Label '') [Text s, Text not_found_tail] (lockStream st))"
  by (simp add: details_endTimer_def Let_def miss_under_lock)

lemma details_getTimer_miss:
  "timePoints st s = None \<Longrightarrow>
   details_getTimer s now st = (- 1, error (Text ''Label '') [Text s, Text not_found_tail] (lockStream st))"
  by (simp add: details_getTimer_def Let_def miss_under_lock)

lemma getTimer_miss:
  "timePoints st s = None \<Longrightarrow>
   getTimer s now st = (- 1, error (Text ''Label '') [Text s, Text not_found_tail] st)"
  by (simp add: getTimer_def Let_def)

lemma endTimer_hit:
  "timePoints st s = Some t0 \<Longrightarrow>
   endTimer s now st = (duration_cast Milliseconds (now - t0),
                        st\<lparr>mtx_engaged := False, timePoints := (timePoints st)(s := None)\<rparr>)"
  by (simp add: endTimer_def Let_def lockStream_def unlockStream_def)

lemma details_endTimer_hit:
  "timePoints st s = Some t0 \<Longrightarrow>
   details_endTimer s now st = (now - t0,
                        st\<lparr>mtx_engaged := False, timePoints := (timePoints st)(s := None)\<rparr>)"
  by (simp add: details_endTimer_def Let_def lockStream_def unlockStream_def)

lemma getTimer_hit:
  "timePoints st s = Some t0 \<Longrightarrow> getTimer s now st = (duration_cast Milliseconds (now - t0), st)"
  by (simp add: getTimer_def Let_def)

lemma details_getTimer_hit:
  "timePoints st s = Some t0 \<Longrightarrow>
   details_getTimer s now st = (now - t0, st\<lparr>mtx_engaged := False\<rparr>)"
  by (simp add: details_getTimer_def Let_def lockStream_def unlockStream_def)

lemma startTimer_state:
  "startTimer s now st = (s, st\<lparr>mtx_engaged := False, timePoints := (timePoints st)(s \<mapsto> now)\<rparr>)"
  by (simp add: startTimer_def Let_def lockStream_def unlockStream_def)

lemma emitted_error:
  "emitted (error obj args st) =
     (if level_index Error < level_index (minLogLevel st) then emitted st
      else emitted st @ line_bytes (doColor st) (cols st Error) (levelLabels st Error) True obj args)"
  by (simp add: error_def logConcurrent_blocked emitted_logConcurrent_passed)
     (simp add: emitted_def)

lemma error_frame:
  "outStream (error obj args st) = outStream st"
  "logFile_open (error obj args st) = logFile_open st"
  "doColor (error obj args st) = doColor st"
  "minLogLevel (error obj args st) = minLogLevel st"
  "timePoints (error obj args st) = timePoints st"
  "mtx (error obj args st) = mtx st"
  by (cases "level_index Error < level_index (minLogLevel st)";
      simp add: error_def logConcurrent_blocked logConcurrent_passed)+

lemma miss_line:
  "line_bytes on col label True (Text ''Label '') [Text s, Text not_found_tail] =
     colorized on col (''['' @ label @ ''] '') @ colorized on col ''Label '' @
     colorized on col s @ colorized on col ('' not found!'' @ [CHR 0x0A])"
  by (simp add: line_bytes_def not_found_tail_def)


lemma log_level_emitted:
  assumes "level_index (minLogLevel st) \<le> level_index level \<or> level = Fatal"
  shows "emitted (log_level level obj args st) =
     emitted st @ line_bytes (doColor st) (cols st level) (levelLabels st level) True obj args"
  unfolding log_level_def
  by (rule emitted_logConcurrent_passed) (use assms in auto)


lemma duration_line:
  "line_bytes on col label True (Text s) [Text '': '', Number d, Text suffix, Character (CHR 0x0A)] =
     colorized on col (''['' @ label @ ''] '') @ colorized on col s @ colorized on col '': '' @
     colorized on col (decimal d) @ colorized on col suffix @ colorized on col [CHR 0x0A]"
  "line_bytes on col label True (Text prefix) [Number d, Text suffix, Character (CHR 0x0A)] =
     colorized on col (''['' @ label @ ''] '') @ colorized on col prefix @
     colorized on col (decimal d) @ colorized on col suffix @ colorized on col [CHR 0x0A]"
  by (simp_all add: line_bytes_def)












text \<open>
  In the later revision the sentinel of \<^verbatim>\<open>details::endTimer\<close> goes through
  \<^verbatim>\<open>duration_cast\<close> before \<^verbatim>\<open>logDuration\<close> compares it with \<open>- 1\<close>: in milliseconds
  it is \<open>0\<close>, and a label that was never started gets a duration line after its error
  line.
\<close>

lemma logDuration_T_miss_logs_zero:
  "emitted (logDuration_T Milliseconds ''t'' [] ''ms'' 0 (disableColor initial))
     = ''[ERROR] Label t not found!'' @ [CHR 0x0A] @ ''[OUT] t: 0ms'' @ [CHR 0x0A]"
proof -
  let ?st = "disableColor initial"
  have absent: "timePoints ?st ''t'' = None"
    by (simp add: initial_def disableColor_def)
  have looked: "endTimer_T Milliseconds ''t'' 0 ?st =
      (0, error (Text ''Label '') [Text ''t'', Text not_found_tail] (lockStream ?st))"
    by (simp add: endTimer_T_def details_endTimer_miss [OF absent] duration_cast_sentinel_lost)
  let ?st1 = "error (Text ''Label '') [Text ''t'', Text not_found_tail] (lockStream ?st)"
  have st1: "minLogLevel ?st1 = Info" "doColor ?st1 = False" "levelLabels ?st1 = default_label"
    "emitted ?st1 = ''[ERROR] Label t not found!'' @ [CHR 0x0A]"
    by (simp_all add: error_frame emitted_error miss_line colorized_def)
       (simp_all add: error_under_lock initial_def disableColor_def emitted_def)
  have "emitted (logDuration_T Milliseconds ''t'' [] ''ms'' 0 ?st) =
      emitted ?st1 @ line_bytes (doColor ?st1) (cols ?st1 Log) (levelLabels ?st1 Log) True
        (Text ''t'') [Text '': '', Number 0, Text ''ms'', Character (CHR 0x0A)]"
    by (simp add: logDuration_T_def logDuration_level_T_def looked log_level_emitted st1(1))
  then show ?thesis
    by (simp add: st1 duration_line colorized_def decimal_def digits10.simps)
qed


text \<open>
  The depth of the lock after a call. A call that does not log from inside another
  locked call gives back the depth it found; a timer lookup that misses returns one
  level deeper, because the nested \<^verbatim>\<open>error\<close> has cleared \<open>mtx_engaged\<close> before the
  outer \<^verbatim>\<open>unlockStream\<close> runs.
\<close>

lemma lock_depth_kept:
  "mtx (logConcurrent level wl obj args st) = mtx st"
  "mtx (snd (startTimer s now st)) = mtx st"
  "timePoints st s = Some t0 \<Longrightarrow> mtx (snd (endTimer s now st)) = mtx st"
  "timePoints st s = Some t0 \<Longrightarrow> mtx (snd (details_getTimer s now st)) = mtx st"
  by (cases "level_index level < level_index (minLogLevel st) \<and> level \<noteq> Fatal")
     (simp_all add: logConcurrent_blocked logConcurrent_passed startTimer_state endTimer_hit
       details_getTimer_hit)

lemma lock_depth_leaked:
  "timePoints st s = None \<Longrightarrow> mtx (snd (endTimer s now st)) = mtx st + 1"
  "timePoints st s = None \<Longrightarrow> mtx (snd (details_endTimer s now st)) = mtx st + 1"
  "timePoints st s = None \<Longrightarrow> mtx (snd (details_getTimer s now st)) = mtx st + 1"
  by (simp_all add: endTimer_miss details_endTimer_miss details_getTimer_miss error_under_lock)

subsection \<open>The file sink\<close>

lemma open_failure_line:
  "line_bytes on col label True (Text open_path_head)
      [Text directory, Text ''/'', Text filename, Text open_path_tail, Text message] =
     colorized on col (''['' @ label @ ''] '') @ colorized on col open_path_head @
     colorized on col directory @ colorized on col ''/'' @ colorized on col filename @
     colorized on col open_path_tail @ colorized on col message"
  by (simp add: line_bytes_def)

lemma dumpLogFile_doColor: "doColor (dumpLogFile st) = doColor st"
  by (simp add: dumpLogFile_def Let_def)

lemma logConcurrent_doColor: "doColor (logConcurrent level wl obj args st) = doColor st"
  by (cases "level_index level < level_index (minLogLevel st) \<and> level \<noteq> Fatal")
     (simp_all add: logConcurrent_blocked logConcurrent_passed)

lemma doColor_kept:
  "doColor (setLogLabel lv label st) = doColor st"
  "doColor (setLogColor lv color st) = doColor st"
  "doColor (setOutStream os st) = doColor st"
  "doColor (details_setOutStream os st) = doColor st"
  "doColor (snd (setMinimumLogLevel M st)) = doColor st"
  "doColor (snd (startTimer s now st)) = doColor st"
  by (simp_all add: setLogLabel_def setLogColor_def setOutStream_def details_setOutStream_def
      setMinimumLogLevel_def startTimer_state lockStream_def unlockStream_def Let_def)

lemma doColor_kept_by_timers:
  "doColor (snd (endTimer s now st)) = doColor st"
  "doColor (snd (getTimer s now st)) = doColor st"
  "doColor (snd (details_endTimer s now st)) = doColor st"
  "doColor (snd (details_getTimer s now st)) = doColor st"
  by (cases "timePoints st s";
      simp add: endTimer_miss endTimer_hit getTimer_miss getTimer_hit details_endTimer_miss
        details_endTimer_hit details_getTimer_miss details_getTimer_hit error_frame)+

section \<open>The claims\<close>

text \<open>
  Claim C1, as the code has it. For each of the levels Debug, Info, Warn, Error and
  Critical and every minimum level \<open>M\<close> set through \<^verbatim>\<open>setMinimumLogLevel\<close>: when \<open>M\<close> is
  strictly above the level, the level's entry point writes nothing and returns the state
  it was given (the lock's flag \<open>mtx_engaged\<close> cleared, as it is before any outermost
  call); when \<open>M\<close> is at most the level, the active stream gains the labelled line of the
  arguments, which is never empty. The entry point \<^verbatim>\<open>fatal\<close> writes its labelled line
  for every \<open>M\<close>, also for \<open>M = Log\<close> that lies above it, and the unconditional entry
  point \<^verbatim>\<open>log\<close> writes its arguments, without a label, for every \<open>M\<close>.
\<close>

theorem leveled_gate:
  assumes "L \<in> {Debug, Info, Warn, Error, Critical}"
  shows "(level_index L < level_index M \<longrightarrow>
            entry_point L obj args (snd (setMinimumLogLevel M st))
              = (snd (setMinimumLogLevel M st))\<lparr>mtx_engaged := False\<rparr>)
       \<and> (level_index M \<le> level_index L \<longrightarrow>
            emitted (entry_point L obj args (snd (setMinimumLogLevel M st)))
              = emitted st @ line_bytes (doColor st) (cols st L) (levelLabels st L) True obj args
            \<and> emitted (entry_point L obj args (snd (setMinimumLogLevel M st))) \<noteq> emitted st)
       \<and> (emitted (entry_point Fatal obj args (snd (setMinimumLogLevel M st)))
              = emitted st @ line_bytes (doColor st) (cols st Fatal) (levelLabels st Fatal) True obj args
            \<and> emitted (entry_point Fatal obj args (snd (setMinimumLogLevel M st))) \<noteq> emitted st)
       \<and> emitted (entry_point Log obj args (snd (setMinimumLogLevel M st)))
              = emitted st @ line_bytes (doColor st) (cols st Log) (levelLabels st Log) False obj args"
proof -
  let ?cfg = "snd (setMinimumLogLevel M st)"
  have cfg: "minLogLevel ?cfg = M" "doColor ?cfg = doColor st" "cols ?cfg = cols st"
    "levelLabels ?cfg = levelLabels st" "emitted ?cfg = emitted st"
    by (simp_all add: setMinimumLogLevel_def emitted_def)
  have L: "L \<noteq> Fatal" "L \<noteq> Log"
    using assms by auto
  have blocked: "entry_point L obj args ?cfg = ?cfg\<lparr>mtx_engaged := False\<rparr>"
    if "level_index L < level_index M"
    using that L by (simp add: entry_point_logConcurrent logConcurrent_blocked cfg)
  have passed: "emitted (entry_point L' obj args ?cfg)
      = emitted st @ line_bytes (doColor st) (cols st L') (levelLabels st L') (L' \<noteq> Log) obj args"
    if "\<not> (level_index L' < level_index M \<and> L' \<noteq> Fatal)" for L'
    using that by (simp add: entry_point_logConcurrent emitted_logConcurrent_passed cfg)
  have top: "\<not> (level_index Log < level_index M \<and> Log \<noteq> Fatal)"
    by (cases M) simp_all
  show ?thesis
    using blocked passed [of L] passed [of Fatal] passed [of Log] top L
    by (simp add: line_bytes_labelled_nonempty)
qed

text \<open>The gate of C1 at Warn: closed under the minimum Error, open under Info.\<close>

theorem leveled_gate_witness:
  "Warn \<in> {Debug, Info, Warn, Error, Critical}
   \<and> level_index Warn < level_index Error
   \<and> entry_point Warn (Text ''w'') [] (snd (setMinimumLogLevel Error initial))
       = (snd (setMinimumLogLevel Error initial))\<lparr>mtx_engaged := False\<rparr>
   \<and> level_index Info \<le> level_index Warn
   \<and> emitted (entry_point Warn (Text ''w'') [] (snd (setMinimumLogLevel Info initial)))
       = CHR 0x1B # ''[33m[WARNING] '' @ CHR 0x1B # ''[0m'' @ CHR 0x1B # ''[33mw'' @ CHR 0x1B # ''[0m''"
  using leveled_gate [of Warn Error "Text ''w''" "[]" initial]
        leveled_gate [of Warn Info "Text ''w''" "[]" initial]
  by (simp add: initial_def emitted_def line_bytes_def colorized_def reset_col_def)

text \<open>
  C1 as the specification words it fails for the pair Fatal, Log: the minimum is strictly
  above the level and the line is written all the same.
\<close>

theorem leveled_gate_counterexample:
  "level_index Fatal < level_index Log
   \<and> emitted (snd (setMinimumLogLevel Log initial)) = []
   \<and> emitted (entry_point Fatal (Text ''halt'') [] (snd (setMinimumLogLevel Log initial)))
       = CHR 0x1B # ''[4;1;31m[FATAL] '' @ CHR 0x1B # ''[0m'' @ CHR 0x1B # ''[4;1;31mhalt'' @ CHR 0x1B # ''[0m''"
  by (simp add: initial_def emitted_def setMinimumLogLevel_def fatal_def logConcurrent_def
      lockStream_def unlockStream_def requiredLevel_def setLogLevel_def logObj_def print_def
      printWithoutLabel_def getLogColor_def getLogLabel_def ostream_write_def reset_col_def)


text \<open>
  Claim C2. Whatever minimum level \<^verbatim>\<open>setMinimumLogLevel\<close> has installed, the level Log
  included, \<^verbatim>\<open>fatal\<close> writes its labelled line: the gate of \<^verbatim>\<open>logConcurrent\<close> lets
  Fatal through by name.
\<close>

theorem fatal_never_suppressed:
  "emitted (fatal obj args (snd (setMinimumLogLevel M st))) =
     emitted st @ line_bytes (doColor st) (cols st Fatal) (levelLabels st Fatal) True obj args
   \<and> emitted (fatal obj args (snd (setMinimumLogLevel M st))) \<noteq> emitted st"
proof -
  let ?cfg = "snd (setMinimumLogLevel M st)"
  have "emitted (fatal obj args ?cfg) =
      emitted ?cfg @ line_bytes (doColor ?cfg) (cols ?cfg Fatal) (levelLabels ?cfg Fatal) True obj args"
    unfolding fatal_def by (rule emitted_logConcurrent_passed) simp
  then have eq: "emitted (fatal obj args ?cfg) =
      emitted st @ line_bytes (doColor st) (cols st Fatal) (levelLabels st Fatal) True obj args"
    by (simp add: setMinimumLogLevel_def emitted_def)
  then show ?thesis
    by (simp add: line_bytes_labelled_nonempty)
qed

text \<open>C2 at the minimum level Log, on the state of a fresh process.\<close>

theorem fatal_never_suppressed_witness:
  "emitted (fatal (Text ''disk gone'') [Character (CHR 0x0A)] (snd (setMinimumLogLevel Log initial)))
     = CHR 0x1B # ''[4;1;31m[FATAL] '' @ CHR 0x1B # ''[0m'' @ CHR 0x1B # ''[4;1;31mdisk gone'' @ CHR 0x1B # ''[0m''
       @ CHR 0x1B # ''[4;1;31m'' @ [CHR 0x0A] @ CHR 0x1B # ''[0m''"
  using fatal_never_suppressed [of "Text ''disk gone''" "[Character (CHR 0x0A)]" Log initial]
  by (simp add: initial_def emitted_def line_bytes_def colorized_def reset_col_def)


text \<open>
  Claim C3, as the code has it. For a label \<open>s\<close> that is not in the registry,
  \<^verbatim>\<open>endTimer\<close> and \<^verbatim>\<open>getTimer\<close> (and \<^verbatim>\<open>details::endTimer\<close>, \<^verbatim>\<open>details::getTimer\<close> of
  the later revision) return \<open>- 1\<close>; they report the miss through \<^verbatim>\<open>error\<close>, so the
  active stream gains exactly the one line \<^verbatim>\<open>[ERROR] Label s not found!\<close> when the
  minimum level is at most Error, and gains nothing when the minimum level is above
  Error.
\<close>

theorem timer_miss_reported:
  assumes "timePoints st s = None"
  shows "(let W = colorized (doColor st) (cols st Error);
              report = W (''['' @ levelLabels st Error @ ''] '') @ W ''Label '' @ W s
                       @ W ('' not found!'' @ [CHR 0x0A]);
              said = (if level_index (minLogLevel st) \<le> level_index Error
                      then emitted st @ report else emitted st)
          in fst (endTimer s now st) = - 1 \<and> emitted (snd (endTimer s now st)) = said
           \<and> fst (getTimer s now st) = - 1 \<and> emitted (snd (getTimer s now st)) = said
           \<and> fst (details_endTimer s now st) = - 1
           \<and> emitted (snd (details_endTimer s now st)) = said
           \<and> fst (details_getTimer s now st) = - 1
           \<and> emitted (snd (details_getTimer s now st)) = said)"
  using assms
  by (simp add: Let_def endTimer_miss getTimer_miss details_endTimer_miss details_getTimer_miss
      emitted_error miss_line not_less)

text \<open>C3 on a fresh process with colouring off: both lookups answer with the plain line.\<close>

theorem timer_miss_reported_witness:
  "timePoints (disableColor initial) ''t'' = None
   \<and> fst (endTimer ''t'' 7 (disableColor initial)) = - 1
   \<and> emitted (snd (endTimer ''t'' 7 (disableColor initial))) = ''[ERROR] Label t not found!'' @ [CHR 0x0A]
   \<and> fst (getTimer ''t'' 7 (disableColor initial)) = - 1
   \<and> emitted (snd (getTimer ''t'' 7 (disableColor initial))) = ''[ERROR] Label t not found!'' @ [CHR 0x0A]"
  using timer_miss_reported [of "disableColor initial" "''t''" 7]
  by (simp add: initial_def disableColor_def emitted_def colorized_def Let_def)

text \<open>
  C3 as the specification words it fails under the minimum level Critical: the label is
  absent, the sentinel comes back, and no line is written.
\<close>

theorem timer_miss_reported_counterexample:
  "timePoints (snd (setMinimumLogLevel Critical initial)) ''t'' = None
   \<and> emitted (snd (setMinimumLogLevel Critical initial)) = []
   \<and> endTimer ''t'' 7 (snd (setMinimumLogLevel Critical initial))
       = (- 1, initial\<lparr>minLogLevel := Critical, mtx := 1\<rparr>)
   \<and> emitted (snd (endTimer ''t'' 7 (snd (setMinimumLogLevel Critical initial)))) = []
   \<and> emitted (snd (getTimer ''t'' 7 (snd (setMinimumLogLevel Critical initial)))) = []"
  by (simp add: initial_def emitted_def setMinimumLogLevel_def endTimer_def getTimer_def error_def
      logConcurrent_def lockStream_def unlockStream_def requiredLevel_def)


text \<open>
  Claim C4. With a clock that does not run backwards between the two readings,
  \<^verbatim>\<open>startTimer(s)\<close> followed by \<^verbatim>\<open>endTimer(s)\<close> returns the label, then a duration that
  is not negative, and takes \<open>s\<close> out of the registry whatever the registry held
  before; a second \<^verbatim>\<open>endTimer(s)\<close> returns the sentinel \<open>- 1\<close>. The same holds of
  \<^verbatim>\<open>details::endTimer\<close> of the later revision.
\<close>

theorem start_then_end:
  assumes "t0 \<le> t1"
  shows "fst (startTimer s t0 st) = s
       \<and> 0 \<le> fst (endTimer s t1 (snd (startTimer s t0 st)))
       \<and> timePoints (snd (endTimer s t1 (snd (startTimer s t0 st)))) s = None
       \<and> fst (endTimer s t2 (snd (endTimer s t1 (snd (startTimer s t0 st))))) = - 1
       \<and> 0 \<le> fst (details_endTimer s t1 (snd (startTimer s t0 st)))
       \<and> timePoints (snd (details_endTimer s t1 (snd (startTimer s t0 st)))) s = None
       \<and> fst (details_endTimer s t2 (snd (details_endTimer s t1 (snd (startTimer s t0 st))))) = - 1"
proof -
  let ?st1 = "snd (startTimer s t0 st)"
  have started: "timePoints ?st1 s = Some t0"
    by (simp add: startTimer_state)
  have elapsed: "0 \<le> t1 - t0"
    using assms by simp
  have ended: "endTimer s t1 ?st1 = (duration_cast Milliseconds (t1 - t0),
      ?st1\<lparr>mtx_engaged := False, timePoints := (timePoints ?st1)(s := None)\<rparr>)"
    by (rule endTimer_hit [OF started])
  have ended': "details_endTimer s t1 ?st1 = (t1 - t0,
      ?st1\<lparr>mtx_engaged := False, timePoints := (timePoints ?st1)(s := None)\<rparr>)"
    by (rule details_endTimer_hit [OF started])
  have gone: "timePoints (snd (endTimer s t1 ?st1)) s = None"
    "timePoints (snd (details_endTimer s t1 ?st1)) s = None"
    by (simp_all add: ended ended')
  have "fst (startTimer s t0 st) = s"
    by (simp add: startTimer_state)
  moreover have "0 \<le> fst (endTimer s t1 ?st1)"
    using elapsed by (simp add: ended duration_cast_nonneg)
  moreover have "0 \<le> fst (details_endTimer s t1 ?st1)"
    using elapsed by (simp add: ended')
  moreover have "fst (endTimer s t2 (snd (endTimer s t1 ?st1))) = - 1"
    by (simp add: endTimer_miss [OF gone(1)])
  moreover have "fst (details_endTimer s t2 (snd (details_endTimer s t1 ?st1))) = - 1"
    by (simp add: details_endTimer_miss [OF gone(2)])
  ultimately show ?thesis
    using gone by simp
qed

text \<open>C4 on a fresh process: 2.5 ms after the start the timer reads 2 and is gone.\<close>

theorem start_then_end_witness:
  "(10::int) \<le> 2500010
   \<and> endTimer ''t'' 2500010 (snd (startTimer ''t'' 10 initial)) = (2, initial)
   \<and> fst (endTimer ''t'' 2500020 (snd (endTimer ''t'' 2500010 (snd (startTimer ''t'' 10 initial))))) = - 1"
  using start_then_end [of 10 2500010 "''t''" initial 2500020]
  by (simp add: startTimer_state endTimer_hit duration_cast_def initial_def)

text \<open>
  Claim C5. For a label \<open>s\<close> in the registry, started no later than the clock's reading,
  \<^verbatim>\<open>getTimer(s)\<close> returns a duration that is not negative and leaves the registry as it
  was (the earlier revision leaves the whole state, the later one clears only the lock's
  flag), so that \<^verbatim>\<open>endTimer(s)\<close> afterwards still finds the start instant, returns the
  time elapsed since it and removes \<open>s\<close>.
\<close>

theorem peek_keeps_timer:
  assumes "timePoints st s = Some t0" and "t0 \<le> t1"
  shows "0 \<le> fst (getTimer s t1 st)
       \<and> snd (getTimer s t1 st) = st
       \<and> endTimer s t2 (snd (getTimer s t1 st))
            = (duration_cast Milliseconds (t2 - t0),
               st\<lparr>mtx_engaged := False, timePoints := (timePoints st)(s := None)\<rparr>)
       \<and> 0 \<le> fst (details_getTimer s t1 st)
       \<and> snd (details_getTimer s t1 st) = st\<lparr>mtx_engaged := False\<rparr>
       \<and> timePoints (snd (details_getTimer s t1 st)) = timePoints st
       \<and> details_endTimer s t2 (snd (details_getTimer s t1 st))
            = (t2 - t0, st\<lparr>mtx_engaged := False, timePoints := (timePoints st)(s := None)\<rparr>)"
proof -
  have kept: "timePoints (st\<lparr>mtx_engaged := False\<rparr>) s = Some t0"
    using assms(1) by simp
  show ?thesis
    using assms
    by (simp add: getTimer_hit details_getTimer_hit endTimer_hit details_endTimer_hit [OF kept]
        duration_cast_nonneg)
qed

text \<open>C5 after a start at 10 ns: the peek at 3 ms reads 3, the end at 4 ms reads 4.\<close>

theorem peek_keeps_timer_witness:
  "timePoints (snd (startTimer ''t'' 10 initial)) ''t'' = Some 10 \<and> (10::int) \<le> 3000010
   \<and> getTimer ''t'' 3000010 (snd (startTimer ''t'' 10 initial)) = (3, snd (startTimer ''t'' 10 initial))
   \<and> fst (endTimer ''t'' 4000010 (snd (getTimer ''t'' 3000010 (snd (startTimer ''t'' 10 initial))))) = 4"
  using peek_keeps_timer [of "snd (startTimer ''t'' 10 initial)" "''t''" 10 3000010 4000010]
  by (simp add: startTimer_state getTimer_hit duration_cast_def initial_def)




text \<open>
  Claim C7 does not hold of the code. On a fresh process \<^verbatim>\<open>endTimer\<close> of a label that
  was never started returns with the recursive mutex still held once; so do
  \<^verbatim>\<open>details::endTimer\<close> and \<^verbatim>\<open>details::getTimer\<close> of the later revision.
\<close>

theorem endTimer_miss_holds_lock:
  "mtx initial = 0
   \<and> timePoints initial ''t'' = None
   \<and> mtx (snd (endTimer ''t'' 0 initial)) = 1
   \<and> mtx (snd (details_endTimer ''t'' 0 initial)) = 1
   \<and> mtx (snd (details_getTimer ''t'' 0 initial)) = 1"
proof -
  have fresh: "timePoints initial ''t'' = None" "mtx initial = 0"
    by (simp_all add: initial_def)
  show ?thesis
    by (simp add: fresh endTimer_miss details_endTimer_miss details_getTimer_miss error_under_lock)
qed

text \<open>
  Claim C8, as the code has it. When \<^verbatim>\<open>create_directories\<close> fails for a directory name
  that is not empty, \<^verbatim>\<open>initLogFile\<close> reports it through \<^verbatim>\<open>error\<close> and returns: the
  active stream, the open state of the log file and the colour flag are as before, and
  the stream gains the line
  \<^verbatim>\<open>[ERROR] failed to open log file '<directory>/<filename>': <message>\<close> when the
  minimum level is at most Error, nothing when it is above.
\<close>

theorem initLogFile_directory_failure:
  assumes "directory \<noteq> []"
  shows "(let st' = initLogFile directory filename (Some message) opened st;
              W = colorized (doColor st) (cols st Error);
              report = W (''['' @ levelLabels st Error @ ''] '') @ W open_path_head
                       @ W directory @ W ''/'' @ W filename @ W open_path_tail @ W message
          in outStream st' = outStream st
           \<and> logFile_open st' = logFile_open st
           \<and> doColor st' = doColor st
           \<and> emitted st' = (if level_index (minLogLevel st) \<le> level_index Error
                             then emitted st @ report else emitted st))"
  using assms
  by (simp add: initLogFile_def Let_def error_frame emitted_error open_failure_line not_less)

text \<open>C8 on a fresh process with colouring off.\<close>

theorem initLogFile_directory_failure_witness:
  "''/var/log/app'' \<noteq> []
   \<and> emitted (initLogFile ''/var/log/app'' ''Log.log'' (Some ''Permission denied'') False
        (disableColor initial))
       = ''[ERROR] failed to open log file '' @ [CHR 0x27] @ ''/var/log/app/Log.log'' @ [CHR 0x27]
         @ '': Permission denied''
   \<and> outStream (initLogFile ''/var/log/app'' ''Log.log'' (Some ''Permission denied'') False
        (disableColor initial)) = cout_buf
   \<and> logFile_open (initLogFile ''/var/log/app'' ''Log.log'' (Some ''Permission denied'') False
        (disableColor initial)) = False"
  using initLogFile_directory_failure [where directory = "''/var/log/app''"
      and filename = "''Log.log''" and message = "''Permission denied''" and opened = False
      and st = "disableColor initial"]
  by (auto simp add: Let_def initial_def disableColor_def emitted_def colorized_def
      open_path_head_def open_path_tail_def)

text \<open>
  C8 as the specification words it fails under the minimum level Critical: the
  directory cannot be created and no line is written.
\<close>

theorem initLogFile_directory_failure_counterexample:
  "emitted (snd (setMinimumLogLevel Critical initial)) = []
   \<and> emitted (initLogFile ''/var/log/app'' ''Log.log'' (Some ''Permission denied'') False
        (snd (setMinimumLogLevel Critical initial))) = []"
  by (simp add: initLogFile_def error_def logConcurrent_def lockStream_def unlockStream_def
      requiredLevel_def setMinimumLogLevel_def initial_def emitted_def Let_def)

text \<open>
  Claim C9, as the code has it. With colouring on, \<^verbatim>\<open>print\<close> writes the decoration
  \<^verbatim>\<open>[LABEL] \<close> between the colour and the reset sequence and then the message between the
  colour and the reset sequence again, which is what \<^verbatim>\<open>printWithoutLabel\<close> writes for
  the message alone.
\<close>

theorem print_colors_label_and_body:
  assumes "doColor st"
  shows "emitted (print msg st) =
           emitted st @ cols st (currentLevel st) @ ''['' @ levelLabels st (currentLevel st) @ ''] ''
             @ reset_col @ cols st (currentLevel st) @ msg @ reset_col
       \<and> emitted (printWithoutLabel msg st) =
           emitted st @ cols st (currentLevel st) @ msg @ reset_col"
  using assms
  by (simp add: print_bytes printWithoutLabel_bytes colorized_def emitted_def ostream_write_def)

text \<open>C9 on a fresh process, at the level Info.\<close>

theorem print_colors_label_and_body_witness:
  "doColor initial
   \<and> emitted (print ''up'' initial) =
       CHR 0x1B # ''[32m[INFO] '' @ CHR 0x1B # ''[0m'' @ CHR 0x1B # ''[32mup'' @ CHR 0x1B # ''[0m''
   \<and> emitted (printWithoutLabel ''up'' initial) = CHR 0x1B # ''[32mup'' @ CHR 0x1B # ''[0m''"
  using print_colors_label_and_body [of initial "''up''"]
  by (simp add: initial_def emitted_def reset_col_def)

text \<open>
  C9 as the specification words it fails on a fresh process: after the reset that closes
  the decoration the message does not follow bare, the colour sequence is written again.
\<close>

theorem print_body_plain_counterexample:
  "doColor initial
   \<and> emitted (print ''up'' initial) \<noteq>
       CHR 0x1B # ''[32m[INFO] '' @ CHR 0x1B # ''[0m'' @ ''up''
   \<and> emitted (print ''up'' initial) =
       CHR 0x1B # ''[32m[INFO] '' @ CHR 0x1B # ''[0m'' @ CHR 0x1B # ''[32mup'' @ CHR 0x1B # ''[0m''"
  by (simp add: print_def printWithoutLabel_def getLogColor_def getLogLabel_def ostream_write_def
      initial_def emitted_def reset_col_def)

text \<open>
  Claim C10. An \<^verbatim>\<open>initLogFile\<close> that opens its file makes the file the active stream
  and switches colouring off. \<^verbatim>\<open>dumpLogFile\<close> closes the file, hands the active stream
  back to the console when the file was the active stream, and leaves the colour flag as
  it is: after the file is closed colouring is still off. The entry points, the timers
  and the other setters keep the flag; \<^verbatim>\<open>enableColor\<close> sets it.
\<close>

theorem file_sink_disables_color:
  "doColor (initLogFile directory filename None True st) = False
   \<and> outStream (initLogFile directory filename None True st) = logFile_buf
   \<and> logFile_open (initLogFile directory filename None True st)
   \<and> doColor (dumpLogFile st) = doColor st
   \<and> logFile_open (dumpLogFile st) = False
   \<and> outStream (dumpLogFile st)
       = (if logFile_open st \<and> outStream st = logFile_buf then cout_buf else outStream st)
   \<and> outStream (dumpLogFile (initLogFile directory filename None True st)) = cout_buf
   \<and> doColor (dumpLogFile (initLogFile directory filename None True st)) = False
   \<and> doColor (entry_point L obj args st) = doColor st
   \<and> doColor (log_level L obj args st) = doColor st
   \<and> doColor (snd (startTimer s now st)) = doColor st
   \<and> doColor (snd (endTimer s now st)) = doColor st
   \<and> doColor (snd (getTimer s now st)) = doColor st
   \<and> doColor (snd (details_endTimer s now st)) = doColor st
   \<and> doColor (snd (details_getTimer s now st)) = doColor st
   \<and> doColor (setLogLabel L label st) = doColor st
   \<and> doColor (setLogColor L color st) = doColor st
   \<and> doColor (setOutStream os st) = doColor st
   \<and> doColor (snd (setMinimumLogLevel L st)) = doColor st
   \<and> doColor (enableColor st) = True"
  by (simp add: initLogFile_def dumpLogFile_def disableColor_def enableColor_def Let_def
      entry_point_logConcurrent log_level_def logConcurrent_doColor doColor_kept
      doColor_kept_by_timers)

text \<open>C10 on a fresh process: colouring is on before, off after, and the console line is bare.\<close>

theorem file_sink_disables_color_witness:
  "doColor initial
   \<and> doColor (initLogFile ''logs'' ''Log.log'' None True initial) = False
   \<and> outStream (initLogFile ''logs'' ''Log.log'' None True initial) = logFile_buf
   \<and> outStream (dumpLogFile (initLogFile ''logs'' ''Log.log'' None True initial)) = cout_buf
   \<and> doColor (dumpLogFile (initLogFile ''logs'' ''Log.log'' None True initial)) = False
   \<and> emitted (info (Text ''back'') [] (dumpLogFile (initLogFile ''logs'' ''Log.log'' None True initial)))
       = ''[INFO] back''
   \<and> doColor (enableColor (dumpLogFile (initLogFile ''logs'' ''Log.log'' None True initial)))"
  using file_sink_disables_color [where directory = "''logs''" and filename = "''Log.log''"
      and st = initial]
    file_sink_disables_color [where
      st = "dumpLogFile (initLogFile ''logs'' ''Log.log'' None True initial)"]
  by (simp add: initial_def initLogFile_def dumpLogFile_def disableColor_def Let_def
      info_def logConcurrent_passed line_bytes_def colorized_def emitted_def)

end
